theory Spec2Isabelle
  imports Main "HOL-Library.Word" "HOL-Library.AList"
begin

section \<open>Dynamic values\<close>

text \<open>
  A payload stores values of Go's empty interface. The constructors below are the
  runtime types the sources and their tests put into a payload; a type assertion
  \<^verbatim>\<open>raw.(T)\<close> succeeds exactly on the constructor of \<open>T\<close>.

  \<^item> \<open>time.Time\<close> is an instant, counted in nanoseconds from the zero Time
    \<^verbatim>\<open>time.Time{}\<close>, so the zero value is \<open>0\<close> and \<^verbatim>\<open>Equal\<close> is equality;
  \<^item> \<open>time.Duration\<close> is a count of nanoseconds, an int64 read as an integer;
  \<^item> \<open>int\<close> and \<open>int64\<close> are 64-bit words, \<open>float64\<close> is its 64 bits;
  \<^item> a Go map is the list of its entries in the order a \<^verbatim>\<open>range\<close> loop visits them;
    the keys of a Go map are distinct;
  \<^item> \<open>Payload\<close> and \<open>PayloadWaiter\<close> are interfaces implemented by pointers: the value
    is the address of the object.
\<close>

type_synonym Time = int
type_synonym Duration = int
type_synonym addr = nat

datatype val =
    VNil
  | VBool bool
  | VInt "64 word"
  | VInt64 "64 word"
  | VFloat64 "64 word"
  | VString string
  | VStrings "string list"
  | VTime Time
  | VDuration Duration
  | VWaiter addr
  | VPayload addr
  | VPayloadValues "(string \<times> val) list"
  | VMap "(string \<times> val) list"

type_synonym PayloadValues = "(string \<times> val) list"

text \<open>
  Modelled from the spec: the reserved default key \<^verbatim>\<open>cells.DefaultPayload\<close>, under which a
  single value that is no mapping is stored. Its declaration is not part of the sources at
  hand; only that it is one fixed string matters.
\<close>

definition DefaultPayload :: string where
  "DefaultPayload = ''default''"

section \<open>Payload\<close>

record payload =
  values_f :: PayloadValues

text \<open>The objects of type \<open>payload\<close> allocated so far; a \<open>*payload\<close> is an index into them.\<close>

type_synonym heap = "payload list"

datatype panic = NilPointerDereference

text \<open>\<^verbatim>\<open>m[key] = value\<close> on a Go map.\<close>

definition map_assign :: "string \<Rightarrow> val \<Rightarrow> PayloadValues \<Rightarrow> PayloadValues" where
  "map_assign key v m = AList.update key v m"

text \<open>\<^verbatim>\<open>for key, value := range vs { dst[key] = value }\<close>\<close>

fun range_assign :: "PayloadValues \<Rightarrow> PayloadValues \<Rightarrow> PayloadValues" where
  "range_assign [] dst = dst"
| "range_assign ((key, v) # vs) dst = range_assign vs (map_assign key v dst)"

text \<open>\<^verbatim>\<open>&payload{values: vs}\<close>: the new object gets the next free address.\<close>

definition new_payload :: "heap \<Rightarrow> PayloadValues \<Rightarrow> addr \<times> heap" where
  "new_payload h vs = (length h, h @ [\<lparr>values_f = vs\<rparr>])"

definition NewPayload :: "heap \<Rightarrow> val \<Rightarrow> addr \<times> heap" where
  "NewPayload h vals =
     (case vals of
        VPayload p \<Rightarrow> (p, h)
      | VPayloadValues vs \<Rightarrow> new_payload h (range_assign vs [])
      | VMap vs \<Rightarrow> new_payload h (range_assign vs [])
      | _ \<Rightarrow> new_payload h (map_assign DefaultPayload vals []))"

definition payload_Len :: "payload \<Rightarrow> nat" where
  "payload_Len p = length (values_f p)"

definition payload_Get :: "payload \<Rightarrow> string \<Rightarrow> val \<times> bool" where
  "payload_Get p key =
     (case map_of (values_f p) key of
        None \<Rightarrow> (VNil, False)
      | Some v \<Rightarrow> (v, True))"

definition payload_GetBool :: "payload \<Rightarrow> string \<Rightarrow> bool \<times> bool" where
  "payload_GetBool p key =
     (let (raw, ok) = payload_Get p key in
      if \<not> ok then (False, ok)
      else (case raw of VBool b \<Rightarrow> (b, True) | _ \<Rightarrow> (False, False)))"

definition payload_GetInt :: "payload \<Rightarrow> string \<Rightarrow> 64 word \<times> bool" where
  "payload_GetInt p key =
     (let (raw, ok) = payload_Get p key in
      if \<not> ok then (0, ok)
      else (case raw of VInt i \<Rightarrow> (i, True) | _ \<Rightarrow> (0, False)))"

definition payload_GetFloat64 :: "payload \<Rightarrow> string \<Rightarrow> 64 word \<times> bool" where
  "payload_GetFloat64 p key =
     (let (raw, ok) = payload_Get p key in
      if \<not> ok then (0, ok)
      else (case raw of VFloat64 f \<Rightarrow> (f, True) | _ \<Rightarrow> (0, False)))"

definition payload_GetString :: "payload \<Rightarrow> string \<Rightarrow> string \<times> bool" where
  "payload_GetString p key =
     (let (raw, ok) = payload_Get p key in
      if \<not> ok then ('''', ok)
      else (case raw of VString s \<Rightarrow> (s, True) | _ \<Rightarrow> ('''', False)))"

definition payload_GetTime :: "payload \<Rightarrow> string \<Rightarrow> Time \<times> bool" where
  "payload_GetTime p key =
     (let (raw, ok) = payload_Get p key in
      if \<not> ok then (0, ok)
      else (case raw of VTime t \<Rightarrow> (t, True) | _ \<Rightarrow> (0, False)))"

definition payload_GetDuration :: "payload \<Rightarrow> string \<Rightarrow> Duration \<times> bool" where
  "payload_GetDuration p key =
     (let (raw, ok) = payload_Get p key in
      if \<not> ok then (0, ok)
      else (case raw of VDuration d \<Rightarrow> (d, True) | _ \<Rightarrow> (0, False)))"

text \<open>The result is an interface: \<open>None\<close> is its \<^verbatim>\<open>nil\<close>.\<close>

definition payload_GetWaiter :: "payload \<Rightarrow> string \<Rightarrow> addr option \<times> bool" where
  "payload_GetWaiter p key =
     (let (raw, ok) = payload_Get p key in
      if \<not> ok then (None, ok)
      else (case raw of VWaiter w \<Rightarrow> (Some w, True) | _ \<Rightarrow> (None, False)))"

definition payload_Keys :: "payload \<Rightarrow> string list" where
  "payload_Keys p = map fst (values_f p)"

text \<open>
  \<^verbatim>\<open>Do\<close> calls \<open>f\<close> on every entry and stops at the first error. What \<open>f\<close> does to the
  variables it closes over is the state \<open>s\<close> threaded through the calls.
\<close>

fun Do_range :: "PayloadValues \<Rightarrow> (string \<Rightarrow> val \<Rightarrow> 's \<Rightarrow> 'e option \<times> 's) \<Rightarrow> 's \<Rightarrow> 'e option \<times> 's" where
  "Do_range [] f s = (None, s)"
| "Do_range ((key, v) # vs) f s =
     (case f key v s of
        (Some err, s') \<Rightarrow> (Some err, s')
      | (None, s') \<Rightarrow> Do_range vs f s')"

definition payload_Do :: "payload \<Rightarrow> (string \<Rightarrow> val \<Rightarrow> 's \<Rightarrow> 'e option \<times> 's) \<Rightarrow> 's \<Rightarrow> 'e option \<times> 's" where
  "payload_Do p f s = Do_range (values_f p) f s"

text \<open>
  \<^verbatim>\<open>Apply\<close> reads its receiver and, for a \<open>Payload\<close> argument, the argument's object; an
  address that is not allocated stands for a nil pointer, and reading through it panics.
\<close>

definition payload_Apply :: "heap \<Rightarrow> addr \<Rightarrow> val \<Rightarrow> panic + (addr \<times> heap)" where
  "payload_Apply h p vals =
     (if \<not> p < length h then Inl NilPointerDereference
      else
        let applied = range_assign (values_f (h ! p)) [] in
        (case vals of
           VPayload vs \<Rightarrow>
             (if \<not> vs < length h then Inl NilPointerDereference
              else
                let (err, applied') =
                      payload_Do (h ! vs) (\<lambda>key v a. (None :: unit option, map_assign key v a)) applied
                in Inr (new_payload h applied'))
         | VPayloadValues vs \<Rightarrow> Inr (new_payload h (range_assign vs applied))
         | VMap vs \<Rightarrow> Inr (new_payload h (range_assign vs applied))
         | _ \<Rightarrow> Inr (new_payload h (map_assign DefaultPayload vals applied))))"

section \<open>PayloadWaiter\<close>

text \<open>
  A context, as \<^verbatim>\<open>Wait\<close> sees it at the moment of its \<^verbatim>\<open>select\<close>: the \<^verbatim>\<open>nil\<close> context,
  or a context whose \<^verbatim>\<open>Err()\<close> is \<open>None\<close> while its \<^verbatim>\<open>Done()\<close> channel is open and the
  cancellation error once it is closed.
\<close>

datatype ctx_error = Canceled | DeadlineExceeded

datatype context_Context = NilContext | Context "ctx_error option"

definition Background :: context_Context where
  "Background = Context None"

fun ctx_Err :: "context_Context \<Rightarrow> ctx_error option" where
  "ctx_Err NilContext = None"
| "ctx_Err (Context e) = e"

text \<open>
  The struct: \<open>payloadc\<close> is the buffer of the channel \<^verbatim>\<open>make(chan Payload, 1)\<close>, oldest
  element first, and \<open>once\<close> is whether the \<^verbatim>\<open>sync.Once\<close> has run.
\<close>

record 'p payloadWaiter =
  payloadc :: "'p list"
  once :: bool

definition payloadc_cap :: nat where
  "payloadc_cap = 1"

definition NewPayloadWaiter :: "'p payloadWaiter" where
  "NewPayloadWaiter = \<lparr>payloadc = [], once = False\<rparr>"

text \<open>A send on a buffered channel: \<open>None\<close> when the buffer is full and the sender blocks.\<close>

definition chan_send :: "nat \<Rightarrow> 'p \<Rightarrow> 'p list \<Rightarrow> 'p list option" where
  "chan_send cap p buf = (if length buf < cap then Some (buf @ [p]) else None)"

text \<open>\<open>None\<close>: the call does not return, the send inside \<^verbatim>\<open>once.Do\<close> blocks.\<close>

definition payloadWaiter_Set :: "'p \<Rightarrow> 'p payloadWaiter \<Rightarrow> 'p payloadWaiter option" where
  "payloadWaiter_Set p w =
     (if once w then Some w
      else (case chan_send payloadc_cap p (payloadc w) of
              None \<Rightarrow> None
            | Some buf \<Rightarrow> Some (w\<lparr>payloadc := buf, once := True\<rparr>)))"

text \<open>
  The \<^verbatim>\<open>select\<close> of \<^verbatim>\<open>Wait\<close> has two cases. The runtime takes one of those that can proceed,
  chosen at random when both can; the choice is the argument \<open>pick\<close>. With none ready the
  caller is suspended.
\<close>

datatype select_case = RecvPayloadc | RecvDone

definition ready_cases :: "context_Context \<Rightarrow> 'p payloadWaiter \<Rightarrow> select_case list" where
  "ready_cases ctx w =
     (if payloadc w \<noteq> [] then [RecvPayloadc] else []) @
     (if ctx_Err ctx \<noteq> None then [RecvDone] else [])"

definition select_pick :: "nat \<Rightarrow> select_case list \<Rightarrow> select_case option" where
  "select_pick pick cs = (if cs = [] then None else Some (cs ! (pick mod length cs)))"

text \<open>
  \<open>Returns pl err\<close> is the pair \<^verbatim>\<open>(Payload, error)\<close> with \<open>None\<close> for \<^verbatim>\<open>nil\<close>; \<open>Blocks\<close> is a
  call that stays suspended as long as nothing else changes the waiter or the context.
  Both cases of the \<^verbatim>\<open>select\<close> return, so the surrounding \<^verbatim>\<open>for\<close> runs its body once.
\<close>

datatype 'p wait_result = Returns "'p option" "ctx_error option" | Blocks

definition payloadWaiter_Wait :: "nat \<Rightarrow> context_Context \<Rightarrow> 'p payloadWaiter \<Rightarrow> 'p wait_result \<times> 'p payloadWaiter" where
  "payloadWaiter_Wait pick ctx0 w =
     (let ctx = (if ctx0 = NilContext then Background else ctx0) in
      case select_pick pick (ready_cases ctx w) of
        None \<Rightarrow> (Blocks, w)
      | Some RecvPayloadc \<Rightarrow>
          (case payloadc w of
             [] \<Rightarrow> (Blocks, w)
           | pl # rest \<Rightarrow> (Returns (Some pl) None, w\<lparr>payloadc := rest\<rparr>))
      | Some RecvDone \<Rightarrow> (Returns None (ctx_Err ctx), w))"

section \<open>Pair behavior\<close>

record Event =
  event_Topic :: string
  event_Payload :: payload

text \<open>
  The topics and payload keys of the pair behavior are constants whose declarations are
  not part of the sources at hand. They are pairwise different strings; the properties
  below do not depend on their spelling.
\<close>

text \<open>Modelled from the spec: the topic of the event emitted for a pair.\<close>

definition EventPairTopic :: string where
  "EventPairTopic = ''pair''"

text \<open>Modelled from the spec: the topic of the timeout event, which is also the topic of the timeout-check event the timer emits to the own cell.\<close>

definition EventPairTimeoutTopic :: string where
  "EventPairTimeoutTopic = ''pair:timeout''"

text \<open>Modelled from the spec: the payload key of the timestamp of the first hit.\<close>

definition EventPairFirstTimePayload :: string where
  "EventPairFirstTimePayload = ''pair:first:time''"

text \<open>Modelled from the spec: the payload key of the data of the first hit.\<close>

definition EventPairFirstDataPayload :: string where
  "EventPairFirstDataPayload = ''pair:first:data''"

text \<open>Modelled from the spec: the payload key of the timestamp of the second hit.\<close>

definition EventPairSecondTimePayload :: string where
  "EventPairSecondTimePayload = ''pair:second:time''"

text \<open>Modelled from the spec: the payload key of the data of the second hit.\<close>

definition EventPairSecondDataPayload :: string where
  "EventPairSecondDataPayload = ''pair:second:data''"

text \<open>Modelled from the spec: the payload key of the timestamp of the timeout.\<close>

definition EventPairTimeoutPayload :: string where
  "EventPairTimeoutPayload = ''pair:timeout:time''"

text \<open>
  \<^verbatim>\<open>Time.Sub\<close> of the standard library: the difference as a Duration, which is an int64 and
  saturates at its bounds.
\<close>

definition maxDuration :: Duration where
  "maxDuration = 2 ^ 63 - 1"

definition minDuration :: Duration where
  "minDuration = - (2 ^ 63)"

definition time_Sub :: "Time \<Rightarrow> Time \<Rightarrow> Duration" where
  "time_Sub t u =
     (let d = t - u in
      if d > maxDuration then maxDuration
      else if d < minDuration then minDuration
      else d)"

text \<open>
  The timer of \<^verbatim>\<open>time.AfterFunc\<close>: its delay and the event its function emits to the
  behavior's own cell (topic and payload values).
\<close>

datatype timer = Timer Duration string PayloadValues

text \<open>What a call does to the world outside the struct, in program order.\<close>

datatype effect =
    AfterFunc timer
  | TimerStop timer
  | CellEmitNew string PayloadValues

text \<open>
  The struct without its \<open>cell\<close>, which \<^verbatim>\<open>Init\<close> sets before any event is delivered and which
  only receives the emissions. A \<^verbatim>\<open>nil\<close> pointer is \<open>None\<close>, a \<^verbatim>\<open>nil\<close> interface \<open>VNil\<close>.
\<close>

record pairBehavior =
  matches :: "Event \<Rightarrow> val \<Rightarrow> val \<times> bool"
  duration :: Duration
  hit :: "Time option"
  hitData :: val
  timeout :: "timer option"

definition NewPairBehavior :: "(Event \<Rightarrow> val \<Rightarrow> val \<times> bool) \<Rightarrow> Duration \<Rightarrow> pairBehavior" where
  "NewPairBehavior m d = \<lparr>matches = m, duration = d, hit = None, hitData = VNil, timeout = None\<rparr>"

definition emitPair :: "Time \<Rightarrow> val \<Rightarrow> pairBehavior \<Rightarrow> panic + (pairBehavior \<times> effect list)" where
  "emitPair timestamp data b =
     (case hit b of
        None \<Rightarrow> Inl NilPointerDereference
      | Some h \<Rightarrow>
          Inr (b\<lparr>hit := None\<rparr>,
               [CellEmitNew EventPairTopic
                  [(EventPairFirstTimePayload, VTime h),
                   (EventPairFirstDataPayload, hitData b),
                   (EventPairSecondTimePayload, VTime timestamp),
                   (EventPairSecondDataPayload, data)]]))"

text \<open>\<open>tnow\<close> is what \<^verbatim>\<open>time.Now()\<close> returns inside \<^verbatim>\<open>emitTimeout\<close>.\<close>

definition emitTimeout :: "Time \<Rightarrow> pairBehavior \<Rightarrow> panic + (pairBehavior \<times> effect list)" where
  "emitTimeout tnow b =
     (case hit b of
        None \<Rightarrow> Inl NilPointerDereference
      | Some h \<Rightarrow>
          Inr (b\<lparr>hit := None\<rparr>,
               [CellEmitNew EventPairTimeoutTopic
                  [(EventPairFirstTimePayload, VTime h),
                   (EventPairFirstDataPayload, hitData b),
                   (EventPairTimeoutPayload, VTime tnow)]]))"

text \<open>
  \<open>now\<close> is what \<^verbatim>\<open>time.Now()\<close> returns in \<^verbatim>\<open>ProcessEvent\<close> itself, \<open>tnow\<close> what it returns
  in \<^verbatim>\<open>emitTimeout\<close>. The result is the struct after the call and the effects of the call;
  the returned error is always \<^verbatim>\<open>nil\<close>.
\<close>

definition pairBehavior_ProcessEvent ::
    "Time \<Rightarrow> Time \<Rightarrow> Event \<Rightarrow> pairBehavior \<Rightarrow> panic + (pairBehavior \<times> effect list)" where
  "pairBehavior_ProcessEvent now tnow event b =
     (if event_Topic event = EventPairTimeoutTopic then
        (if hit b \<noteq> None \<and> timeout b \<noteq> None then
           (let (h, ok) = payload_GetTime (event_Payload event) EventPairFirstTimePayload in
            if ok \<and> Some h = hit b then
              (case emitTimeout tnow b of
                 Inl e \<Rightarrow> Inl e
               | Inr (b', es) \<Rightarrow> Inr (b'\<lparr>timeout := None\<rparr>, es))
            else Inr (b, []))
         else Inr (b, []))
      else
        (let (hitData', ok) = matches b event (hitData b) in
         if ok then
           (case hit b of
              None \<Rightarrow>
                (let tm = Timer (duration b) EventPairTimeoutTopic
                                [(EventPairFirstTimePayload, VTime now)]
                 in Inr (b\<lparr>hit := Some now, hitData := hitData', timeout := Some tm\<rparr>,
                         [AfterFunc tm]))
            | Some h \<Rightarrow>
                (case timeout b of
                   None \<Rightarrow> Inl NilPointerDereference
                 | Some tm \<Rightarrow>
                     (let b1 = b\<lparr>timeout := None\<rparr> in
                      case (if time_Sub now h > duration b then emitTimeout tnow b1
                            else emitPair now hitData' b1) of
                        Inl e \<Rightarrow> Inl e
                      | Inr (b', es) \<Rightarrow> Inr (b', TimerStop tm # es))))
         else Inr (b, [])))"

section \<open>Counter behavior\<close>

text \<open>
  Modelled from the spec: the reset topic \<^verbatim>\<open>cells.TopicReset\<close>, which the test emits; its
  declaration is not part of the sources at hand.
\<close>

definition TopicReset :: string where
  "TopicReset = ''reset''"

text \<open>
  Modelled from the spec: the topic of a snapshot request, the second reserved control topic
  of the counter behavior; its declaration is not part of the sources at hand.
\<close>

definition TopicCounters :: string where
  "TopicCounters = ''counters''"

text \<open>
  Modelled from the spec: the state of the counter behavior, whose source file is missing
  (only its test is at hand): a mapping from derived key to a 64-bit counter, empty on
  creation.
\<close>

record counterBehavior =
  counters :: "(string \<times> 64 word) list"

text \<open>Modelled from the spec: the constructor of the missing counter behavior, with no counters yet.\<close>

definition NewCounterBehavior :: counterBehavior where
  "NewCounterBehavior = \<lparr>counters = []\<rparr>"

text \<open>
  Modelled from the spec: the counter of a key goes up by one, an entry being created with
  the first occurrence of its key.
\<close>

definition counter_increment :: "string \<Rightarrow> (string \<times> 64 word) list \<Rightarrow> (string \<times> 64 word) list" where
  "counter_increment key cs =
     AList.update key (case map_of cs key of None \<Rightarrow> 1 | Some c \<Rightarrow> c + 1) cs"

text \<open>
  Modelled from the spec: every key the key-derivation function returns for an event is
  counted, a key that occurs twice in one result twice.
\<close>

fun counter_count :: "string list \<Rightarrow> (string \<times> 64 word) list \<Rightarrow> (string \<times> 64 word) list" where
  "counter_count [] cs = cs"
| "counter_count (key # keys) cs = counter_count keys (counter_increment key cs)"

text \<open>Modelled from the spec: the Payload snapshot of the full counter mapping, key to count.\<close>

definition counter_snapshot :: "(string \<times> 64 word) list \<Rightarrow> payload" where
  "counter_snapshot cs = \<lparr>values_f = map (\<lambda>(key, c). (key, VInt64 c)) cs\<rparr>"

text \<open>
  Modelled from the spec: the event handler of the missing counter behavior. \<open>cf\<close> is the
  key-derivation function, \<open>cid\<close> the id of the cell, \<open>ws\<close> the waiters that exist, by
  address. A reset clears the counters; a request deposits the snapshot into the waiter
  that the request's payload carries under the default key; any other event is counted.
  \<open>None\<close>: the handler does not return.
\<close>

definition counterBehavior_ProcessEvent ::
    "(string \<Rightarrow> Event \<Rightarrow> string list) \<Rightarrow> string \<Rightarrow> Event \<Rightarrow>
     counterBehavior \<times> payload payloadWaiter list \<Rightarrow>
     (counterBehavior \<times> payload payloadWaiter list) option" where
  "counterBehavior_ProcessEvent cf cid event st =
     (let (b, ws) = st in
      if event_Topic event = TopicReset then Some (b\<lparr>counters := []\<rparr>, ws)
      else if event_Topic event = TopicCounters then
        (case payload_GetWaiter (event_Payload event) DefaultPayload of
           (Some w, True) \<Rightarrow>
             (if w < length ws then
                (case payloadWaiter_Set (counter_snapshot (counters b)) (ws ! w) of
                   None \<Rightarrow> None
                 | Some w' \<Rightarrow> Some (b, ws[w := w']))
              else Some (b, ws))
         | _ \<Rightarrow> Some (b, ws))
      else Some (b\<lparr>counters := counter_count (cf cid event) (counters b)\<rparr>, ws))"

text \<open>Modelled from the spec: the entries of a snapshot payload that are 64-bit counts.\<close>

fun counter_results :: "PayloadValues \<Rightarrow> (string \<times> 64 word) list" where
  "counter_results [] = []"
| "counter_results ((key, VInt64 c) # vs) = (key, c) # counter_results vs"
| "counter_results (_ # vs) = counter_results vs"

text \<open>
  Modelled from the spec: the snapshot helper \<^verbatim>\<open>RequestCounterResults\<close>, which the test
  calls and whose source is missing: it emits a request event that carries a fresh
  PayloadWaiter and waits on it with the caller's context. The cell handles the request
  before the wait is decided. \<open>None\<close>: the helper does not return.
\<close>

definition RequestCounterResults ::
    "nat \<Rightarrow> context_Context \<Rightarrow> (string \<Rightarrow> Event \<Rightarrow> string list) \<Rightarrow> string \<Rightarrow>
     counterBehavior \<times> payload payloadWaiter list \<Rightarrow>
     ((ctx_error + (string \<times> 64 word) list) \<times> counterBehavior \<times> payload payloadWaiter list) option" where
  "RequestCounterResults pick ctx cf cid st =
     (let (b, ws) = st;
          w = length ws;
          request = \<lparr>event_Topic = TopicCounters,
                     event_Payload = \<lparr>values_f = [(DefaultPayload, VWaiter w)]\<rparr>\<rparr>
      in case counterBehavior_ProcessEvent cf cid request (b, ws @ [NewPayloadWaiter]) of
           None \<Rightarrow> None
         | Some (b', ws') \<Rightarrow>
             (case payloadWaiter_Wait pick ctx (ws' ! w) of
                (Returns (Some p) _, w') \<Rightarrow>
                  Some (Inr (counter_results (values_f p)), b', ws'[w := w'])
              | (Returns None (Some err), w') \<Rightarrow> Some (Inl err, b', ws'[w := w'])
              | _ \<Rightarrow> None))"

text \<open>
  The key-derivation function of the test: the string slice stored under the default key,
  and no keys when there is none.
\<close>

definition test_cf :: "string \<Rightarrow> Event \<Rightarrow> string list" where
  "test_cf cid event =
     (case payload_Get (event_Payload event) DefaultPayload of
        (VStrings keys, True) \<Rightarrow> keys
      | _ \<Rightarrow> [])"

section \<open>Notions used to state the properties\<close>

text \<open>
  The entries an argument of \<^verbatim>\<open>Apply\<close> brings along: those of the payload it points to,
  those of the mapping it is, or else the argument itself under the default key.
\<close>

definition arg_entries :: "heap \<Rightarrow> val \<Rightarrow> PayloadValues" where
  "arg_entries h vals =
     (case vals of
        VPayload q \<Rightarrow> values_f (h ! q)
      | VPayloadValues vs \<Rightarrow> vs
      | VMap vs \<Rightarrow> vs
      | _ \<Rightarrow> [(DefaultPayload, vals)])"

text \<open>
  Modelled from the spec: the cell hands the events to its behavior one at a time, in the
  order in which they were emitted.
\<close>

fun counter_deliver ::
    "(string \<Rightarrow> Event \<Rightarrow> string list) \<Rightarrow> string \<Rightarrow> Event list \<Rightarrow>
     counterBehavior \<times> payload payloadWaiter list \<Rightarrow>
     (counterBehavior \<times> payload payloadWaiter list) option" where
  "counter_deliver cf cid [] st = Some st"
| "counter_deliver cf cid (event # events) st =
     (case counterBehavior_ProcessEvent cf cid event st of
        None \<Rightarrow> None
      | Some st' \<Rightarrow> counter_deliver cf cid events st')"

text \<open>
  A criterion for the examples: every event matches; the data returned is the topic of
  the event when the prior data is \<^verbatim>\<open>nil\<close>, and otherwise a mapping that holds the prior
  data next to the topic.
\<close>

definition topic_criterion :: "Event \<Rightarrow> val \<Rightarrow> val \<times> bool" where
  "topic_criterion event prior =
     (case prior of
        VNil \<Rightarrow> (VString (event_Topic event), True)
      | _ \<Rightarrow> (VPayloadValues [(''prior'', prior), (''topic'', VString (event_Topic event))], True))"

text \<open>The reminder of a first hit at instant 100 with a window of 10.\<close>

definition first_reminder :: timer where
  "first_reminder = Timer 10 EventPairTimeoutTopic [(EventPairFirstTimePayload, VTime 100)]"

section \<open>Properties of the payload waiter\<close>

lemma Wait_empty:
  "payloadc w = [] \<Longrightarrow>
   payloadWaiter_Wait pick ctx w =
     (if ctx_Err ctx = None then Blocks else Returns None (ctx_Err ctx), w)"
  by (cases ctx) (auto simp: payloadWaiter_Wait_def ready_cases_def select_pick_def Background_def)

lemma Wait_full_open:
  "payloadc w = pl # rest \<Longrightarrow> ctx_Err ctx = None \<Longrightarrow>
   payloadWaiter_Wait pick ctx w = (Returns (Some pl) None, w\<lparr>payloadc := rest\<rparr>)"
  by (cases ctx) (auto simp: payloadWaiter_Wait_def ready_cases_def select_pick_def Background_def)

lemma Wait_full_done:
  assumes "payloadc w = pl # rest" and "ctx_Err ctx = Some e"
  shows "payloadWaiter_Wait pick ctx w =
     (if even pick then (Returns (Some pl) None, w\<lparr>payloadc := rest\<rparr>)
      else (Returns None (Some e), w))"
proof -
  have r: "ready_cases ctx w = [RecvPayloadc, RecvDone]"
    using assms by (simp add: ready_cases_def)
  have c: "ctx \<noteq> NilContext"
    using assms by auto
  show ?thesis
  proof (cases "even pick")
    case True
    then have "pick mod Suc (Suc 0) = 0" by presburger
    with r c assms show ?thesis
      using True by (simp add: payloadWaiter_Wait_def select_pick_def)
  next
    case False
    then have "pick mod Suc (Suc 0) = Suc 0" by presburger
    with r c assms show ?thesis
      using False by (simp add: payloadWaiter_Wait_def select_pick_def)
  qed
qed

text \<open>
  As long as the guard is open the slot is empty. \<^verbatim>\<open>Set\<close> and \<^verbatim>\<open>Wait\<close> keep it so, and
  on such a waiter the deposit of \<^verbatim>\<open>Set\<close> never blocks.
\<close>

lemma Set_never_blocks:
  assumes "\<not> once w \<longrightarrow> payloadc w = []"
  shows "\<exists>w'. payloadWaiter_Set p w = Some w' \<and> (\<not> once w' \<longrightarrow> payloadc w' = [])"
  using assms
  by (auto simp: payloadWaiter_Set_def chan_send_def payloadc_cap_def)

lemma Wait_keeps_guard:
  assumes "\<not> once w \<longrightarrow> payloadc w = []" and "payloadWaiter_Wait pick ctx w = (r, w')"
  shows "\<not> once w' \<longrightarrow> payloadc w' = []"
proof (cases "payloadc w")
  case Nil
  with assms(2) show ?thesis by (simp add: Wait_empty)
next
  case (Cons pl rest)
  with assms(1) have "once w" by auto
  moreover have "once w' = once w"
    using assms(2) Cons
    by (cases "ctx_Err ctx") (auto simp: Wait_full_open Wait_full_done split: if_splits)
  ultimately show ?thesis by simp
qed

text \<open>
  Claim C5. Only the first \<^verbatim>\<open>Set\<close> deposits a payload. Once the guard is closed, a \<^verbatim>\<open>Set\<close>
  with any payload leaves the waiter exactly as it is, whatever the slot holds; and every
  \<^verbatim>\<open>Set\<close> that returns leaves the guard closed, so a second \<^verbatim>\<open>Set\<close> after it has no effect.
  On a waiter with an open guard and an empty slot the first \<^verbatim>\<open>Set\<close> puts its payload into
  the slot. On a new waiter the first \<^verbatim>\<open>Set\<close> fills the slot with its payload and closes the
  guard, a second one changes nothing, a \<^verbatim>\<open>Wait\<close> then returns the payload of the first, and
  a \<^verbatim>\<open>Set\<close> after that \<^verbatim>\<open>Wait\<close> does not fill the emptied slot again.
\<close>

theorem Set_only_first:
  "(once w0 \<longrightarrow> payloadWaiter_Set q w0 = Some w0) \<and>
   (payloadWaiter_Set p w = Some w' \<longrightarrow> once w' \<and> payloadWaiter_Set q w' = Some w') \<and>
   (\<not> once w \<and> payloadc w = [] \<longrightarrow>
      payloadWaiter_Set p w = Some (w\<lparr>payloadc := [p], once := True\<rparr>)) \<and>
   Option.bind (payloadWaiter_Set p w) (payloadWaiter_Set q) = payloadWaiter_Set p w \<and>
   payloadWaiter_Set p NewPayloadWaiter = Some \<lparr>payloadc = [p], once = True\<rparr> \<and>
   payloadWaiter_Set q \<lparr>payloadc = [p], once = True\<rparr> = Some \<lparr>payloadc = [p], once = True\<rparr> \<and>
   fst (payloadWaiter_Wait pick Background \<lparr>payloadc = [p], once = True\<rparr>) = Returns (Some p) None \<and>
   payloadWaiter_Set q (snd (payloadWaiter_Wait pick Background \<lparr>payloadc = [p], once = True\<rparr>)) =
     Some \<lparr>payloadc = [], once = True\<rparr>"
proof (intro conjI impI)
  show "payloadWaiter_Set q w0 = Some w0" if "once w0"
    using that by (simp add: payloadWaiter_Set_def)
  show "once w'" if "payloadWaiter_Set p w = Some w'"
    using that by (auto simp: payloadWaiter_Set_def split: if_splits option.splits)
  then show "payloadWaiter_Set q w' = Some w'" if "payloadWaiter_Set p w = Some w'"
    using that by (simp add: payloadWaiter_Set_def)
  show "payloadWaiter_Set p w = Some (w\<lparr>payloadc := [p], once := True\<rparr>)"
    if "\<not> once w \<and> payloadc w = []"
    using that by (simp add: payloadWaiter_Set_def chan_send_def payloadc_cap_def)
  show "Option.bind (payloadWaiter_Set p w) (payloadWaiter_Set q) = payloadWaiter_Set p w"
    by (simp add: payloadWaiter_Set_def split: option.splits)
  show "payloadWaiter_Set p NewPayloadWaiter = Some \<lparr>payloadc = [p], once = True\<rparr>"
    by (simp add: payloadWaiter_Set_def chan_send_def payloadc_cap_def NewPayloadWaiter_def)
  show "payloadWaiter_Set q \<lparr>payloadc = [p], once = True\<rparr> = Some \<lparr>payloadc = [p], once = True\<rparr>"
    by (simp add: payloadWaiter_Set_def)
  show "fst (payloadWaiter_Wait pick Background \<lparr>payloadc = [p], once = True\<rparr>) = Returns (Some p) None"
    by (simp add: Wait_full_open Background_def)
  show "payloadWaiter_Set q (snd (payloadWaiter_Wait pick Background \<lparr>payloadc = [p], once = True\<rparr>)) =
     Some \<lparr>payloadc = [], once = True\<rparr>"
    by (simp add: Wait_full_open Background_def payloadWaiter_Set_def)
qed

theorem Set_only_first_witness:
  "payloadWaiter_Set (9::nat) \<lparr>payloadc = [], once = True\<rparr> = Some \<lparr>payloadc = [], once = True\<rparr> \<and>
   payloadWaiter_Set (7::nat) NewPayloadWaiter = Some \<lparr>payloadc = [7], once = True\<rparr> \<and>
   payloadWaiter_Set (9::nat) \<lparr>payloadc = [7], once = True\<rparr> = Some \<lparr>payloadc = [7], once = True\<rparr>"
  using Set_only_first [of "\<lparr>payloadc = [] :: nat list, once = True\<rparr>" 9 7 NewPayloadWaiter
      "\<lparr>payloadc = [7::nat], once = True\<rparr>" 0]
  by (simp add: NewPayloadWaiter_def)

text \<open>
  Claim C1, as stated, fails: after \<^verbatim>\<open>Set\<close> has deposited the payload 7, the first \<^verbatim>\<open>Wait\<close>
  returns it and empties the slot; the second \<^verbatim>\<open>Wait\<close> on the same waiter finds nothing and
  stays suspended, or returns the error of its context once that is done.
\<close>

theorem Wait_all_observe_counterexample:
  "payloadWaiter_Set (7::nat) NewPayloadWaiter = Some \<lparr>payloadc = [7], once = True\<rparr> \<and>
   payloadWaiter_Wait 0 Background \<lparr>payloadc = [7::nat], once = True\<rparr> =
     (Returns (Some 7) None, \<lparr>payloadc = [], once = True\<rparr>) \<and>
   payloadWaiter_Wait 0 Background \<lparr>payloadc = [] :: nat list, once = True\<rparr> =
     (Blocks, \<lparr>payloadc = [], once = True\<rparr>) \<and>
   payloadWaiter_Wait 0 (Context (Some DeadlineExceeded)) \<lparr>payloadc = [] :: nat list, once = True\<rparr> =
     (Returns None (Some DeadlineExceeded), \<lparr>payloadc = [], once = True\<rparr>)"
  by (simp add: payloadWaiter_Set_def chan_send_def payloadc_cap_def NewPayloadWaiter_def
      payloadWaiter_Wait_def ready_cases_def select_pick_def Background_def)

text \<open>
  Claim C1, amended. On a waiter whose slot holds the payload that \<^verbatim>\<open>Set\<close> deposited, a
  \<^verbatim>\<open>Wait\<close> either returns that payload and empties the slot, or (only with a context that is
  done) returns the context's error and leaves the waiter as it is. Once a \<^verbatim>\<open>Wait\<close> has
  taken the payload, every later \<^verbatim>\<open>Wait\<close> returns no payload: it is suspended while its
  context is open and returns the context's error otherwise; and no later \<^verbatim>\<open>Set\<close> refills
  the slot. A \<^verbatim>\<open>select\<close> is one atomic step on the channel, so \<^verbatim>\<open>Wait\<close> calls that run
  concurrently take these steps in some order.
\<close>

theorem Wait_takes_payload:
  assumes "payloadc w = [p]" and "once w"
  shows "(payloadWaiter_Wait pick ctx w = (Returns (Some p) None, w\<lparr>payloadc := []\<rparr>) \<or>
          (ctx_Err ctx \<noteq> None \<and> payloadWaiter_Wait pick ctx w = (Returns None (ctx_Err ctx), w))) \<and>
         payloadWaiter_Wait pick' ctx' (w\<lparr>payloadc := []\<rparr>) =
           (if ctx_Err ctx' = None then Blocks else Returns None (ctx_Err ctx'), w\<lparr>payloadc := []\<rparr>) \<and>
         payloadWaiter_Set q (w\<lparr>payloadc := []\<rparr>) = Some (w\<lparr>payloadc := []\<rparr>)"
proof (intro conjI)
  show "payloadWaiter_Wait pick ctx w = (Returns (Some p) None, w\<lparr>payloadc := []\<rparr>) \<or>
        (ctx_Err ctx \<noteq> None \<and> payloadWaiter_Wait pick ctx w = (Returns None (ctx_Err ctx), w))"
  proof (cases "ctx_Err ctx")
    case None
    with assms(1) show ?thesis by (simp add: Wait_full_open)
  next
    case (Some e)
    with assms(1) show ?thesis by (simp add: Wait_full_done)
  qed
  show "payloadWaiter_Wait pick' ctx' (w\<lparr>payloadc := []\<rparr>) =
          (if ctx_Err ctx' = None then Blocks else Returns None (ctx_Err ctx'), w\<lparr>payloadc := []\<rparr>)"
    by (rule Wait_empty) simp
  show "payloadWaiter_Set q (w\<lparr>payloadc := []\<rparr>) = Some (w\<lparr>payloadc := []\<rparr>)"
    using assms(2) by (simp add: payloadWaiter_Set_def)
qed

theorem Wait_takes_payload_witness:
  "payloadWaiter_Wait 0 Background \<lparr>payloadc = [7::nat], once = True\<rparr> =
     (Returns (Some 7) None, \<lparr>payloadc = [], once = True\<rparr>) \<and>
   payloadWaiter_Wait 3 (Context (Some Canceled)) \<lparr>payloadc = [] :: nat list, once = True\<rparr> =
     (Returns None (Some Canceled), \<lparr>payloadc = [], once = True\<rparr>) \<and>
   payloadWaiter_Set 9 \<lparr>payloadc = [] :: nat list, once = True\<rparr> = Some \<lparr>payloadc = [], once = True\<rparr>"
  using Wait_takes_payload [of "\<lparr>payloadc = [7::nat], once = True\<rparr>" 7 0 Background 3
      "Context (Some Canceled)" 9]
  by (simp add: Background_def)

text \<open>
  Claim C2, as stated, fails: with a context that is already cancelled and a payload in the
  slot both cases of the \<^verbatim>\<open>select\<close> can proceed, and when the runtime takes the first, \<^verbatim>\<open>Wait\<close>
  returns the payload and no error.
\<close>

theorem Wait_cancelled_counterexample:
  "payloadWaiter_Wait 0 (Context (Some Canceled)) \<lparr>payloadc = [7::nat], once = True\<rparr> =
     (Returns (Some 7) None, \<lparr>payloadc = [], once = True\<rparr>)"
  by (simp add: payloadWaiter_Wait_def ready_cases_def select_pick_def)

text \<open>
  Claim C2, amended. With a context that is already done when \<^verbatim>\<open>Wait\<close> is called, \<^verbatim>\<open>Wait\<close>
  returns at once. With an empty slot it returns the cancellation error and no payload.
  With a payload in the slot the runtime's choice decides: \<^verbatim>\<open>Wait\<close> returns either the
  payload, which it takes out of the slot, or the cancellation error, leaving the payload
  where it is.
\<close>

theorem Wait_cancelled:
  assumes "ctx_Err ctx = Some e"
  shows "(payloadc w = [] \<longrightarrow> payloadWaiter_Wait pick ctx w = (Returns None (Some e), w)) \<and>
         (\<forall>pl rest. payloadc w = pl # rest \<longrightarrow>
            payloadWaiter_Wait pick ctx w =
              (if even pick then (Returns (Some pl) None, w\<lparr>payloadc := rest\<rparr>)
               else (Returns None (Some e), w)))"
  using assms by (simp add: Wait_empty Wait_full_done)

theorem Wait_cancelled_witness:
  "payloadWaiter_Wait 0 (Context (Some Canceled)) \<lparr>payloadc = [] :: nat list, once = False\<rparr> =
     (Returns None (Some Canceled), \<lparr>payloadc = [], once = False\<rparr>) \<and>
   payloadWaiter_Wait 1 (Context (Some Canceled)) \<lparr>payloadc = [7::nat], once = True\<rparr> =
     (Returns None (Some Canceled), \<lparr>payloadc = [7], once = True\<rparr>) \<and>
   payloadWaiter_Wait 2 (Context (Some Canceled)) \<lparr>payloadc = [7::nat], once = True\<rparr> =
     (Returns (Some 7) None, \<lparr>payloadc = [], once = True\<rparr>)"
  using Wait_cancelled [of "Context (Some Canceled)" Canceled "\<lparr>payloadc = [] :: nat list, once = False\<rparr>" 0]
        Wait_cancelled [of "Context (Some Canceled)" Canceled "\<lparr>payloadc = [7::nat], once = True\<rparr>" 1]
        Wait_cancelled [of "Context (Some Canceled)" Canceled "\<lparr>payloadc = [7::nat], once = True\<rparr>" 2]
  by simp

section \<open>Properties of the payload\<close>

text \<open>
  Claim C7. Each typed accessor returns the zero value of its type and the flag \<open>False\<close>
  when the key is absent and when the value stored under it is not of the requested type.
  In particular \<^verbatim>\<open>GetInt(k)\<close> is \<open>(0, False)\<close> after a string was stored under \<open>k\<close>, as it
  is on a payload that stores nothing.
\<close>

theorem typed_accessors_strict:
  "(map_of (values_f p) k = None \<or> (\<exists>v. map_of (values_f p) k = Some v \<and> (\<forall>x. v \<noteq> VBool x))
      \<longrightarrow> payload_GetBool p k = (False, False)) \<and>
   (map_of (values_f p) k = None \<or> (\<exists>v. map_of (values_f p) k = Some v \<and> (\<forall>x. v \<noteq> VInt x))
      \<longrightarrow> payload_GetInt p k = (0, False)) \<and>
   (map_of (values_f p) k = None \<or> (\<exists>v. map_of (values_f p) k = Some v \<and> (\<forall>x. v \<noteq> VFloat64 x))
      \<longrightarrow> payload_GetFloat64 p k = (0, False)) \<and>
   (map_of (values_f p) k = None \<or> (\<exists>v. map_of (values_f p) k = Some v \<and> (\<forall>x. v \<noteq> VString x))
      \<longrightarrow> payload_GetString p k = ('''', False)) \<and>
   (map_of (values_f p) k = None \<or> (\<exists>v. map_of (values_f p) k = Some v \<and> (\<forall>x. v \<noteq> VTime x))
      \<longrightarrow> payload_GetTime p k = (0, False)) \<and>
   (map_of (values_f p) k = None \<or> (\<exists>v. map_of (values_f p) k = Some v \<and> (\<forall>x. v \<noteq> VDuration x))
      \<longrightarrow> payload_GetDuration p k = (0, False)) \<and>
   (map_of (values_f p) k = None \<or> (\<exists>v. map_of (values_f p) k = Some v \<and> (\<forall>x. v \<noteq> VWaiter x))
      \<longrightarrow> payload_GetWaiter p k = (None, False)) \<and>
   payload_GetInt \<lparr>values_f = map_assign k (VString s) vs\<rparr> k = (0, False) \<and>
   payload_GetInt \<lparr>values_f = []\<rparr> k = (0, False)"
proof (intro conjI impI)
  show "payload_GetInt \<lparr>values_f = map_assign k (VString s) vs\<rparr> k = (0, False)"
    by (simp add: payload_GetInt_def payload_Get_def map_assign_def update_conv')
  show "payload_GetInt \<lparr>values_f = []\<rparr> k = (0, False)"
    by (simp add: payload_GetInt_def payload_Get_def)
qed (auto simp: payload_Get_def payload_GetBool_def payload_GetInt_def payload_GetFloat64_def
      payload_GetString_def payload_GetTime_def payload_GetDuration_def payload_GetWaiter_def
      split: val.splits)

theorem typed_accessors_strict_witness:
  "payload_GetBool \<lparr>values_f = [(''k'', VString ''seven'')]\<rparr> ''k'' = (False, False) \<and>
   payload_GetInt \<lparr>values_f = [(''k'', VString ''seven'')]\<rparr> ''k'' = (0, False) \<and>
   payload_GetFloat64 \<lparr>values_f = [(''k'', VString ''seven'')]\<rparr> ''k'' = (0, False) \<and>
   payload_GetString \<lparr>values_f = [(''k'', VString ''seven'')]\<rparr> ''j'' = ('''', False) \<and>
   payload_GetTime \<lparr>values_f = [(''k'', VString ''seven'')]\<rparr> ''k'' = (0, False) \<and>
   payload_GetDuration \<lparr>values_f = [(''k'', VString ''seven'')]\<rparr> ''k'' = (0, False) \<and>
   payload_GetWaiter \<lparr>values_f = [(''k'', VString ''seven'')]\<rparr> ''k'' = (None, False)"
  using typed_accessors_strict [of "\<lparr>values_f = [(''k'', VString ''seven'')]\<rparr>" "''k''"]
        typed_accessors_strict [of "\<lparr>values_f = [(''k'', VString ''seven'')]\<rparr>" "''j''"]
  by simp

text \<open>
  Claim C10. \<^verbatim>\<open>NewPayload\<close> of a value that already is a Payload returns that very Payload,
  the same address, and allocates nothing; so applying \<^verbatim>\<open>NewPayload\<close> to the result of
  \<^verbatim>\<open>NewPayload\<close> on any value gives that result again.
\<close>

theorem NewPayload_idempotent:
  "NewPayload h (VPayload p) = (p, h) \<and>
   (let (a, h') = NewPayload h v in NewPayload h' (VPayload a) = (a, h'))"
  by (simp add: NewPayload_def split: prod.splits)

lemma distinct_range_assign:
  "distinct (map fst dst) \<Longrightarrow> distinct (map fst (range_assign vs dst))"
  by (induction vs dst rule: range_assign.induct) (simp_all add: map_assign_def distinct_update)

lemma keys_range_assign:
  "fst ` set (range_assign vs dst) = fst ` set dst \<union> fst ` set vs"
  by (induction vs dst rule: range_assign.induct) (auto simp: map_assign_def dom_update)

lemma map_of_range_assign:
  "distinct (map fst vs) \<Longrightarrow> map_of (range_assign vs dst) = map_of dst ++ map_of vs"
proof (induction vs dst rule: range_assign.induct)
  case (1 dst)
  then show ?case by simp
next
  case (2 key v vs dst)
  then have notin: "map_of vs key = None"
    by (simp add: map_of_eq_None_iff)
  have ih: "map_of (range_assign vs (map_assign key v dst)) = map_of (map_assign key v dst) ++ map_of vs"
    using 2 by simp
  have upd: "map_of (map_assign key v dst) = (map_of dst)(key \<mapsto> v)"
    by (simp only: map_assign_def update_conv')
  have "map_of (range_assign ((key, v) # vs) dst) x = (map_of dst ++ map_of ((key, v) # vs)) x" for x
    using notin by (cases "x = key") (simp_all add: ih upd map_add_def split: option.splits)
  then show ?case by blast
qed

lemma Do_range_assign:
  "Do_range vs (\<lambda>key v a. (None, map_assign key v a)) a = (None, range_assign vs a)"
  by (induction vs arbitrary: a) auto

lemma Apply_result:
  assumes "p < length h" and "\<forall>q. vals = VPayload q \<longrightarrow> q < length h"
  shows "payload_Apply h p vals =
           Inr (length h,
                h @ [\<lparr>values_f = range_assign (arg_entries h vals) (range_assign (values_f (h ! p)) [])\<rparr>])"
  using assms
  by (cases vals)
     (simp_all add: payload_Apply_def arg_entries_def new_payload_def payload_Do_def
        Do_range_assign range_assign.simps)

text \<open>
  Claim C6. \<^verbatim>\<open>Apply\<close> on an allocated payload, with any argument (a Payload argument being
  allocated too, and every Go map having distinct keys), returns a payload at a new
  address and leaves every payload that existed before as it was, the receiver among
  them. The keys of the new payload are those of the receiver together with those of the
  argument, and under each key it holds the argument's value if the argument has the key
  and the receiver's value otherwise. An argument that is no mapping counts as the single
  entry of itself under the default key.
\<close>

theorem Apply_overlays_fresh:
  assumes "p < length h"
    and "\<forall>q. vals = VPayload q \<longrightarrow> q < length h"
    and "distinct (map fst (values_f (h ! p)))"
    and "distinct (map fst (arg_entries h vals))"
  shows "\<exists>a h'. payload_Apply h p vals = Inr (a, h') \<and>
           a = length h \<and> length h' = Suc (length h) \<and>
           (\<forall>i < length h. h' ! i = h ! i) \<and>
           distinct (payload_Keys (h' ! a)) \<and>
           set (payload_Keys (h' ! a)) = set (payload_Keys (h ! p)) \<union> fst ` set (arg_entries h vals) \<and>
           (\<forall>k. map_of (values_f (h' ! a)) k =
                  (case map_of (arg_entries h vals) k of
                     Some v \<Rightarrow> Some v
                   | None \<Rightarrow> map_of (values_f (h ! p)) k))"
proof -
  let ?r = "range_assign (arg_entries h vals) (range_assign (values_f (h ! p)) [])"
  have res: "payload_Apply h p vals = Inr (length h, h @ [\<lparr>values_f = ?r\<rparr>])"
    using assms(1,2) by (rule Apply_result)
  have old: "\<forall>i < length h. (h @ [\<lparr>values_f = ?r\<rparr>]) ! i = h ! i"
    by (simp add: nth_append)
  have new: "(h @ [\<lparr>values_f = ?r\<rparr>]) ! length h = \<lparr>values_f = ?r\<rparr>"
    by simp
  have d: "distinct (map fst ?r)"
    by (intro distinct_range_assign) simp
  have k: "set (map fst ?r) = set (map fst (values_f (h ! p))) \<union> fst ` set (arg_entries h vals)"
    by (simp add: keys_range_assign)
  have m: "map_of ?r = map_of (values_f (h ! p)) ++ map_of (arg_entries h vals)"
    using assms(3,4) by (simp add: map_of_range_assign)
  have v: "\<forall>k. map_of ?r k =
                  (case map_of (arg_entries h vals) k of
                     Some v \<Rightarrow> Some v
                   | None \<Rightarrow> map_of (values_f (h ! p)) k)"
    unfolding m by (simp add: map_add_def)
  show ?thesis
    unfolding res using old d k v
    by (simp add: payload_Keys_def)
qed

theorem Apply_overlays_fresh_witness:
  "payload_Apply [\<lparr>values_f = [(''a'', VBool True), (''b'', VString ''old'')]\<rparr>] 0
       (VPayloadValues [(''b'', VString ''new''), (''c'', VTime 5)]) =
     Inr (1, [\<lparr>values_f = [(''a'', VBool True), (''b'', VString ''old'')]\<rparr>,
              \<lparr>values_f = [(''a'', VBool True), (''b'', VString ''new''), (''c'', VTime 5)]\<rparr>]) \<and>
   payload_Apply [\<lparr>values_f = [(''a'', VBool True), (''b'', VString ''old'')]\<rparr>,
                  \<lparr>values_f = [(''b'', VString ''new'')]\<rparr>] 0 (VPayload 1) =
     Inr (2, [\<lparr>values_f = [(''a'', VBool True), (''b'', VString ''old'')]\<rparr>,
              \<lparr>values_f = [(''b'', VString ''new'')]\<rparr>,
              \<lparr>values_f = [(''a'', VBool True), (''b'', VString ''new'')]\<rparr>])"
  using Apply_overlays_fresh [of 0 "[\<lparr>values_f = [(''a'', VBool True), (''b'', VString ''old'')]\<rparr>]"
      "VPayloadValues [(''b'', VString ''new''), (''c'', VTime 5)]"]
    Apply_overlays_fresh [of 0 "[\<lparr>values_f = [(''a'', VBool True), (''b'', VString ''old'')]\<rparr>,
                                 \<lparr>values_f = [(''b'', VString ''new'')]\<rparr>]" "VPayload 1"]
  by (simp add: payload_Apply_def new_payload_def map_assign_def arg_entries_def payload_Do_def)

section \<open>Properties of the pair behavior\<close>

lemma pair_topics_differ [simp]:
  "''login'' \<noteq> EventPairTimeoutTopic" "''logout'' \<noteq> EventPairTimeoutTopic"
  by (simp_all add: EventPairTimeoutTopic_def)

text \<open>
  From a new behavior on, a stored hit always comes with a timer, and \<^verbatim>\<open>ProcessEvent\<close>
  never dereferences a \<^verbatim>\<open>nil\<close> pointer.
\<close>

lemma pair_pending_has_timer:
  assumes "hit b \<noteq> None \<longrightarrow> timeout b \<noteq> None"
  shows "\<exists>b' es. pairBehavior_ProcessEvent now tnow event b = Inr (b', es) \<and>
           (hit b' \<noteq> None \<longrightarrow> timeout b' \<noteq> None)"
  using assms
  by (auto simp: pairBehavior_ProcessEvent_def emitPair_def emitTimeout_def Let_def
      split: if_splits prod.splits option.splits sum.splits)

text \<open>
  Claim C9. A timeout-check event that arrives while no hit is stored, or whose payload
  does not hold, as a time under the first-time key, the stored hit, emits nothing, starts
  and stops no timer and leaves the whole struct as it was.
\<close>

theorem stale_reminder_ignored:
  assumes "event_Topic event = EventPairTimeoutTopic"
    and "\<forall>h. hit b = Some h \<longrightarrow>
           payload_GetTime (event_Payload event) EventPairFirstTimePayload \<noteq> (h, True)"
  shows "pairBehavior_ProcessEvent now tnow event b = Inr (b, [])"
  using assms
  by (auto simp: pairBehavior_ProcessEvent_def split: prod.splits)

theorem stale_reminder_ignored_witness:
  "pairBehavior_ProcessEvent 300 301
     \<lparr>event_Topic = EventPairTimeoutTopic,
      event_Payload = \<lparr>values_f = [(EventPairFirstTimePayload, VTime 100)]\<rparr>\<rparr>
     \<lparr>matches = topic_criterion, duration = 10, hit = Some 200, hitData = VString ''login'',
      timeout = Some (Timer 10 EventPairTimeoutTopic [(EventPairFirstTimePayload, VTime 200)])\<rparr> =
   Inr (\<lparr>matches = topic_criterion, duration = 10, hit = Some 200, hitData = VString ''login'',
         timeout = Some (Timer 10 EventPairTimeoutTopic [(EventPairFirstTimePayload, VTime 200)])\<rparr>, [])"
  using stale_reminder_ignored [of
      "\<lparr>event_Topic = EventPairTimeoutTopic,
        event_Payload = \<lparr>values_f = [(EventPairFirstTimePayload, VTime 100)]\<rparr>\<rparr>"
      "\<lparr>matches = topic_criterion, duration = 10, hit = Some 200, hitData = VString ''login'',
        timeout = Some (Timer 10 EventPairTimeoutTopic [(EventPairFirstTimePayload, VTime 200)])\<rparr>"
      300 301]
  by (simp add: payload_GetTime_def payload_Get_def)

text \<open>
  Claim C4. In the pending state (a hit \<open>h\<close> is stored and its timer \<open>tm\<close> is outstanding)
  a second event that is no timeout check and matches the criterion stops the timer and
  forgets it; it emits the timeout event (first timestamp, first data, timeout timestamp)
  if the time elapsed since the first hit, \<^verbatim>\<open>now.Sub(hit)\<close>, exceeds the duration, and
  otherwise the pair event (first timestamp, first data, second timestamp, second data);
  either way no hit is stored afterwards.
\<close>

theorem second_hit_resolves:
  assumes "hit b = Some h" and "timeout b = Some tm"
    and "event_Topic event \<noteq> EventPairTimeoutTopic"
    and "matches b event (hitData b) = (d, True)"
  shows "pairBehavior_ProcessEvent now tnow event b =
           Inr (b\<lparr>hit := None, timeout := None\<rparr>,
                [TimerStop tm,
                 if time_Sub now h > duration b
                 then CellEmitNew EventPairTimeoutTopic
                        [(EventPairFirstTimePayload, VTime h),
                         (EventPairFirstDataPayload, hitData b),
                         (EventPairTimeoutPayload, VTime tnow)]
                 else CellEmitNew EventPairTopic
                        [(EventPairFirstTimePayload, VTime h),
                         (EventPairFirstDataPayload, hitData b),
                         (EventPairSecondTimePayload, VTime now),
                         (EventPairSecondDataPayload, d)]])"
  using assms
  by (simp add: pairBehavior_ProcessEvent_def emitTimeout_def emitPair_def)

theorem second_hit_resolves_witness:
  "pairBehavior_ProcessEvent 105 106 \<lparr>event_Topic = ''logout'', event_Payload = \<lparr>values_f = []\<rparr>\<rparr>
     \<lparr>matches = (\<lambda>e prior. (VString (event_Topic e), True)), duration = 10, hit = Some 100,
      hitData = VString ''login'', timeout = Some first_reminder\<rparr> =
   Inr (\<lparr>matches = (\<lambda>e prior. (VString (event_Topic e), True)), duration = 10, hit = None,
         hitData = VString ''login'', timeout = None\<rparr>,
        [TimerStop first_reminder,
         CellEmitNew EventPairTopic
           [(EventPairFirstTimePayload, VTime 100),
            (EventPairFirstDataPayload, VString ''login''),
            (EventPairSecondTimePayload, VTime 105),
            (EventPairSecondDataPayload, VString ''logout'')]]) \<and>
   pairBehavior_ProcessEvent 111 112 \<lparr>event_Topic = ''logout'', event_Payload = \<lparr>values_f = []\<rparr>\<rparr>
     \<lparr>matches = (\<lambda>e prior. (VString (event_Topic e), True)), duration = 10, hit = Some 100,
      hitData = VString ''login'', timeout = Some first_reminder\<rparr> =
   Inr (\<lparr>matches = (\<lambda>e prior. (VString (event_Topic e), True)), duration = 10, hit = None,
         hitData = VString ''login'', timeout = None\<rparr>,
        [TimerStop first_reminder,
         CellEmitNew EventPairTimeoutTopic
           [(EventPairFirstTimePayload, VTime 100),
            (EventPairFirstDataPayload, VString ''login''),
            (EventPairTimeoutPayload, VTime 112)]])"
  using second_hit_resolves [of
      "\<lparr>matches = (\<lambda>e prior. (VString (event_Topic e), True)), duration = 10, hit = Some 100,
        hitData = VString ''login'', timeout = Some first_reminder\<rparr>"
      100 first_reminder "\<lparr>event_Topic = ''logout'', event_Payload = \<lparr>values_f = []\<rparr>\<rparr>"
      "VString ''logout''" 105 106]
    second_hit_resolves [of
      "\<lparr>matches = (\<lambda>e prior. (VString (event_Topic e), True)), duration = 10, hit = Some 100,
        hitData = VString ''login'', timeout = Some first_reminder\<rparr>"
      100 first_reminder "\<lparr>event_Topic = ''logout'', event_Payload = \<lparr>values_f = []\<rparr>\<rparr>"
      "VString ''logout''" 111 112]
  by (simp add: time_Sub_def maxDuration_def minDuration_def)

text \<open>
  Claim C3, as stated, fails: the pair of the hits at 100 and 105 is resolved, the stored
  hit is cleared, but the stored data of the first hit stays; the next event, which meets
  the behavior idle, has the criterion called with that data and not with \<^verbatim>\<open>nil\<close>, as the
  data it stores shows.
\<close>

theorem hitData_cleared_counterexample:
  "pairBehavior_ProcessEvent 100 100 \<lparr>event_Topic = ''login'', event_Payload = \<lparr>values_f = []\<rparr>\<rparr>
     (NewPairBehavior topic_criterion 10) =
   Inr (\<lparr>matches = topic_criterion, duration = 10, hit = Some 100, hitData = VString ''login'',
         timeout = Some first_reminder\<rparr>, [AfterFunc first_reminder]) \<and>
   pairBehavior_ProcessEvent 105 105 \<lparr>event_Topic = ''logout'', event_Payload = \<lparr>values_f = []\<rparr>\<rparr>
     \<lparr>matches = topic_criterion, duration = 10, hit = Some 100, hitData = VString ''login'',
      timeout = Some first_reminder\<rparr> =
   Inr (\<lparr>matches = topic_criterion, duration = 10, hit = None, hitData = VString ''login'',
         timeout = None\<rparr>,
        [TimerStop first_reminder,
         CellEmitNew EventPairTopic
           [(EventPairFirstTimePayload, VTime 100),
            (EventPairFirstDataPayload, VString ''login''),
            (EventPairSecondTimePayload, VTime 105),
            (EventPairSecondDataPayload,
             VPayloadValues [(''prior'', VString ''login''), (''topic'', VString ''logout'')])]]) \<and>
   pairBehavior_ProcessEvent 200 200 \<lparr>event_Topic = ''login'', event_Payload = \<lparr>values_f = []\<rparr>\<rparr>
     \<lparr>matches = topic_criterion, duration = 10, hit = None, hitData = VString ''login'',
      timeout = None\<rparr> =
   Inr (\<lparr>matches = topic_criterion, duration = 10, hit = Some 200,
         hitData = VPayloadValues [(''prior'', VString ''login''), (''topic'', VString ''login'')],
         timeout = Some (Timer 10 EventPairTimeoutTopic [(EventPairFirstTimePayload, VTime 200)])\<rparr>,
        [AfterFunc (Timer 10 EventPairTimeoutTopic [(EventPairFirstTimePayload, VTime 200)])])"
  by (simp add: pairBehavior_ProcessEvent_def NewPairBehavior_def topic_criterion_def Let_def
      first_reminder_def emitPair_def emitTimeout_def time_Sub_def maxDuration_def minDuration_def)

lemma ProcessEvent_idle_hitData:
  assumes "pairBehavior_ProcessEvent now tnow event b = Inr (b', es)" and "hit b' = None"
  shows "hitData b' = hitData b"
  using assms
  by (auto simp: pairBehavior_ProcessEvent_def emitPair_def emitTimeout_def Let_def
      split: if_splits prod.splits option.splits sum.splits)

text \<open>
  Claim C3, amended. A new behavior stores \<^verbatim>\<open>nil\<close> as its data. On every event that is no
  timeout check, with or without a pending hit, the criterion is called with the stored
  data, whatever it is, and what \<^verbatim>\<open>ProcessEvent\<close> does is given by the answer: nothing on a
  mismatch; on a match without a pending hit the hit, the returned data and a new timer
  are stored; on a match with a pending hit the timer is stopped and the timeout or the
  pair is emitted. On a timeout check the criterion is not consulted. Resolving a pending
  hit, by \<^verbatim>\<open>emitPair\<close> or by \<^verbatim>\<open>emitTimeout\<close>, clears the stored hit and keeps the stored
  data: whenever \<^verbatim>\<open>ProcessEvent\<close> leaves the behavior idle, the stored data is what it was
  before. So the criterion gets \<^verbatim>\<open>nil\<close> until the first hit, and afterwards, when idle, the
  data of the hit resolved last.
\<close>

theorem hitData_kept:
  "hitData (NewPairBehavior m d) = VNil \<and>
   (event_Topic event \<noteq> EventPairTimeoutTopic \<longrightarrow>
      pairBehavior_ProcessEvent now tnow event b0 =
        (case matches b0 event (hitData b0) of
           (data, ok) \<Rightarrow>
             if \<not> ok then Inr (b0, [])
             else
               (case hit b0 of
                  None \<Rightarrow>
                    Inr (b0\<lparr>hit := Some now, hitData := data,
                            timeout := Some (Timer (duration b0) EventPairTimeoutTopic
                                               [(EventPairFirstTimePayload, VTime now)])\<rparr>,
                         [AfterFunc (Timer (duration b0) EventPairTimeoutTopic
                                       [(EventPairFirstTimePayload, VTime now)])])
                | Some h \<Rightarrow>
                    (case timeout b0 of
                       None \<Rightarrow> Inl NilPointerDereference
                     | Some tm \<Rightarrow>
                         Inr (b0\<lparr>hit := None, timeout := None\<rparr>,
                              [TimerStop tm,
                               if time_Sub now h > duration b0
                               then CellEmitNew EventPairTimeoutTopic
                                      [(EventPairFirstTimePayload, VTime h),
                                       (EventPairFirstDataPayload, hitData b0),
                                       (EventPairTimeoutPayload, VTime tnow)]
                               else CellEmitNew EventPairTopic
                                      [(EventPairFirstTimePayload, VTime h),
                                       (EventPairFirstDataPayload, hitData b0),
                                       (EventPairSecondTimePayload, VTime now),
                                       (EventPairSecondDataPayload, data)]]))))) \<and>
   (event_Topic event = EventPairTimeoutTopic \<longrightarrow>
      pairBehavior_ProcessEvent now tnow event (b0\<lparr>matches := m'\<rparr>) =
        map_sum (\<lambda>e. e) (\<lambda>(b', es). (b'\<lparr>matches := m'\<rparr>, es))
          (pairBehavior_ProcessEvent now tnow event b0)) \<and>
   (emitPair ts data2 b = Inr (b1, es1) \<longrightarrow> hit b1 = None \<and> hitData b1 = hitData b) \<and>
   (emitTimeout ts b = Inr (b2, es2) \<longrightarrow> hit b2 = None \<and> hitData b2 = hitData b) \<and>
   (pairBehavior_ProcessEvent now tnow event b = Inr (b3, es3) \<and> hit b3 = None \<longrightarrow>
      hitData b3 = hitData b)"
proof (intro conjI impI)
  show "hitData (NewPairBehavior m d) = VNil"
    by (simp add: NewPairBehavior_def)
  show "hit b1 = None" "hitData b1 = hitData b" if "emitPair ts data2 b = Inr (b1, es1)"
    using that by (auto simp: emitPair_def split: option.splits)
  show "hit b2 = None" "hitData b2 = hitData b" if "emitTimeout ts b = Inr (b2, es2)"
    using that by (auto simp: emitTimeout_def split: option.splits)
  show "hitData b3 = hitData b"
    if "pairBehavior_ProcessEvent now tnow event b = Inr (b3, es3) \<and> hit b3 = None"
    using that ProcessEvent_idle_hitData by blast
  show "pairBehavior_ProcessEvent now tnow event (b0\<lparr>matches := m'\<rparr>) =
        map_sum (\<lambda>e. e) (\<lambda>(b', es). (b'\<lparr>matches := m'\<rparr>, es))
          (pairBehavior_ProcessEvent now tnow event b0)"
    if "event_Topic event = EventPairTimeoutTopic"
    using that
    by (auto simp: pairBehavior_ProcessEvent_def emitTimeout_def Let_def
        split: prod.splits option.splits)
next
  assume t: "event_Topic event \<noteq> EventPairTimeoutTopic"
  obtain data ok where m: "matches b0 event (hitData b0) = (data, ok)"
    by (cases "matches b0 event (hitData b0)")
  show "pairBehavior_ProcessEvent now tnow event b0 =
        (case matches b0 event (hitData b0) of
           (data, ok) \<Rightarrow>
             if \<not> ok then Inr (b0, [])
             else
               (case hit b0 of
                  None \<Rightarrow>
                    Inr (b0\<lparr>hit := Some now, hitData := data,
                            timeout := Some (Timer (duration b0) EventPairTimeoutTopic
                                               [(EventPairFirstTimePayload, VTime now)])\<rparr>,
                         [AfterFunc (Timer (duration b0) EventPairTimeoutTopic
                                       [(EventPairFirstTimePayload, VTime now)])])
                | Some h \<Rightarrow>
                    (case timeout b0 of
                       None \<Rightarrow> Inl NilPointerDereference
                     | Some tm \<Rightarrow>
                         Inr (b0\<lparr>hit := None, timeout := None\<rparr>,
                              [TimerStop tm,
                               if time_Sub now h > duration b0
                               then CellEmitNew EventPairTimeoutTopic
                                      [(EventPairFirstTimePayload, VTime h),
                                       (EventPairFirstDataPayload, hitData b0),
                                       (EventPairTimeoutPayload, VTime tnow)]
                               else CellEmitNew EventPairTopic
                                      [(EventPairFirstTimePayload, VTime h),
                                       (EventPairFirstDataPayload, hitData b0),
                                       (EventPairSecondTimePayload, VTime now),
                                       (EventPairSecondDataPayload, data)]]))))"
    using t m
    by (simp add: pairBehavior_ProcessEvent_def emitPair_def emitTimeout_def Let_def
        split: option.splits)
qed

theorem hitData_kept_witness:
  "pairBehavior_ProcessEvent 200 201 \<lparr>event_Topic = ''login'', event_Payload = \<lparr>values_f = []\<rparr>\<rparr>
     \<lparr>matches = topic_criterion, duration = 10, hit = None, hitData = VString ''login'',
      timeout = None\<rparr> =
   Inr (\<lparr>matches = topic_criterion, duration = 10, hit = Some 200,
         hitData = VPayloadValues [(''prior'', VString ''login''), (''topic'', VString ''login'')],
         timeout = Some (Timer 10 EventPairTimeoutTopic [(EventPairFirstTimePayload, VTime 200)])\<rparr>,
        [AfterFunc (Timer 10 EventPairTimeoutTopic [(EventPairFirstTimePayload, VTime 200)])]) \<and>
   pairBehavior_ProcessEvent 105 106 \<lparr>event_Topic = ''logout'', event_Payload = \<lparr>values_f = []\<rparr>\<rparr>
     \<lparr>matches = topic_criterion, duration = 10, hit = Some 100, hitData = VString ''login'',
      timeout = Some first_reminder\<rparr> =
   Inr (\<lparr>matches = topic_criterion, duration = 10, hit = None, hitData = VString ''login'',
         timeout = None\<rparr>,
        [TimerStop first_reminder,
         CellEmitNew EventPairTopic
           [(EventPairFirstTimePayload, VTime 100),
            (EventPairFirstDataPayload, VString ''login''),
            (EventPairSecondTimePayload, VTime 105),
            (EventPairSecondDataPayload,
             VPayloadValues [(''prior'', VString ''login''), (''topic'', VString ''logout'')])]]) \<and>
   pairBehavior_ProcessEvent 111 112
     \<lparr>event_Topic = EventPairTimeoutTopic,
      event_Payload = \<lparr>values_f = [(EventPairFirstTimePayload, VTime 100)]\<rparr>\<rparr>
     \<lparr>matches = (\<lambda>e prior. (VNil, False)), duration = 10, hit = Some 100,
      hitData = VString ''login'', timeout = Some first_reminder\<rparr> =
   Inr (\<lparr>matches = (\<lambda>e prior. (VNil, False)), duration = 10, hit = None,
         hitData = VString ''login'', timeout = None\<rparr>,
        [CellEmitNew EventPairTimeoutTopic
           [(EventPairFirstTimePayload, VTime 100),
            (EventPairFirstDataPayload, VString ''login''),
            (EventPairTimeoutPayload, VTime 112)]]) \<and>
   emitPair 105 (VString ''logout'')
     \<lparr>matches = topic_criterion, duration = 10, hit = Some 100, hitData = VString ''login'',
      timeout = Some first_reminder\<rparr> =
   Inr (\<lparr>matches = topic_criterion, duration = 10, hit = None, hitData = VString ''login'',
         timeout = Some first_reminder\<rparr>,
        [CellEmitNew EventPairTopic
           [(EventPairFirstTimePayload, VTime 100),
            (EventPairFirstDataPayload, VString ''login''),
            (EventPairSecondTimePayload, VTime 105),
            (EventPairSecondDataPayload, VString ''logout'')]]) \<and>
   emitTimeout 105
     \<lparr>matches = topic_criterion, duration = 10, hit = Some 100, hitData = VString ''login'',
      timeout = Some first_reminder\<rparr> =
   Inr (\<lparr>matches = topic_criterion, duration = 10, hit = None, hitData = VString ''login'',
         timeout = Some first_reminder\<rparr>,
        [CellEmitNew EventPairTimeoutTopic
           [(EventPairFirstTimePayload, VTime 100),
            (EventPairFirstDataPayload, VString ''login''),
            (EventPairTimeoutPayload, VTime 105)]])"
proof -
  note other = hitData_kept [THEN conjunct2, THEN conjunct1, rule_format]
  note check = hitData_kept [THEN conjunct2, THEN conjunct2, THEN conjunct1, rule_format]
  have idle:
    "pairBehavior_ProcessEvent 200 201 \<lparr>event_Topic = ''login'', event_Payload = \<lparr>values_f = []\<rparr>\<rparr>
       \<lparr>matches = topic_criterion, duration = 10, hit = None, hitData = VString ''login'',
        timeout = None\<rparr> =
     Inr (\<lparr>matches = topic_criterion, duration = 10, hit = Some 200,
           hitData = VPayloadValues [(''prior'', VString ''login''), (''topic'', VString ''login'')],
           timeout = Some (Timer 10 EventPairTimeoutTopic [(EventPairFirstTimePayload, VTime 200)])\<rparr>,
          [AfterFunc (Timer 10 EventPairTimeoutTopic [(EventPairFirstTimePayload, VTime 200)])])"
    by (subst other) (simp_all add: topic_criterion_def)
  have pending:
    "pairBehavior_ProcessEvent 105 106 \<lparr>event_Topic = ''logout'', event_Payload = \<lparr>values_f = []\<rparr>\<rparr>
       \<lparr>matches = topic_criterion, duration = 10, hit = Some 100, hitData = VString ''login'',
        timeout = Some first_reminder\<rparr> =
     Inr (\<lparr>matches = topic_criterion, duration = 10, hit = None, hitData = VString ''login'',
           timeout = None\<rparr>,
          [TimerStop first_reminder,
           CellEmitNew EventPairTopic
             [(EventPairFirstTimePayload, VTime 100),
              (EventPairFirstDataPayload, VString ''login''),
              (EventPairSecondTimePayload, VTime 105),
              (EventPairSecondDataPayload,
               VPayloadValues [(''prior'', VString ''login''), (''topic'', VString ''logout'')])]])"
    by (subst other) (simp_all add: topic_criterion_def time_Sub_def maxDuration_def minDuration_def)
  have reminder:
    "pairBehavior_ProcessEvent 111 112
       \<lparr>event_Topic = EventPairTimeoutTopic,
        event_Payload = \<lparr>values_f = [(EventPairFirstTimePayload, VTime 100)]\<rparr>\<rparr>
       \<lparr>matches = (\<lambda>e prior. (VNil, False)), duration = 10, hit = Some 100,
        hitData = VString ''login'', timeout = Some first_reminder\<rparr> =
     Inr (\<lparr>matches = (\<lambda>e prior. (VNil, False)), duration = 10, hit = None,
           hitData = VString ''login'', timeout = None\<rparr>,
          [CellEmitNew EventPairTimeoutTopic
             [(EventPairFirstTimePayload, VTime 100),
              (EventPairFirstDataPayload, VString ''login''),
              (EventPairTimeoutPayload, VTime 112)]])"
    using check [where
        event = "\<lparr>event_Topic = EventPairTimeoutTopic,
          event_Payload = \<lparr>values_f = [(EventPairFirstTimePayload, VTime 100)]\<rparr>\<rparr>"
        and now = 111 and tnow = 112
        and ?b0.0 = "\<lparr>matches = topic_criterion, duration = 10, hit = Some 100,
          hitData = VString ''login'', timeout = Some first_reminder\<rparr>"
        and m' = "\<lambda>e prior. (VNil, False)"]
    by (simp add: pairBehavior_ProcessEvent_def emitTimeout_def payload_GetTime_def payload_Get_def)
  show ?thesis
    unfolding idle pending reminder
    by (simp add: emitPair_def emitTimeout_def)
qed

section \<open>Properties of the counter behavior\<close>

lemma counter_count_event:
  "event_Topic e \<noteq> TopicReset \<Longrightarrow> event_Topic e \<noteq> TopicCounters \<Longrightarrow>
   counterBehavior_ProcessEvent cf cid e (b, ws) =
     Some (b\<lparr>counters := counter_count (cf cid e) (counters b)\<rparr>, ws)"
  by (simp add: counterBehavior_ProcessEvent_def)

lemma counter_reset_event:
  "event_Topic e = TopicReset \<Longrightarrow>
   counterBehavior_ProcessEvent cf cid e (b, ws) = Some (b\<lparr>counters := []\<rparr>, ws)"
  by (simp add: counterBehavior_ProcessEvent_def)

lemma counter_results_snapshot:
  "counter_results (values_f (counter_snapshot cs)) = cs"
  by (induction cs) (auto simp: counter_snapshot_def)

lemma RequestCounterResults_answer:
  assumes "ctx_Err ctx = None"
  shows "RequestCounterResults pick ctx cf cid (b, ws) =
           Some (Inr (counters b), b, ws @ [\<lparr>payloadc = [], once = True\<rparr>])"
proof -
  have req: "counterBehavior_ProcessEvent cf cid
               \<lparr>event_Topic = TopicCounters,
                event_Payload = \<lparr>values_f = [(DefaultPayload, VWaiter (length ws))]\<rparr>\<rparr>
               (b, ws @ [NewPayloadWaiter]) =
             Some (b, ws @ [\<lparr>payloadc = [counter_snapshot (counters b)], once = True\<rparr>])"
    by (simp add: counterBehavior_ProcessEvent_def TopicCounters_def TopicReset_def
        payload_GetWaiter_def payload_Get_def payloadWaiter_Set_def NewPayloadWaiter_def
        chan_send_def payloadc_cap_def)
  have wait: "payloadWaiter_Wait pick ctx \<lparr>payloadc = [counter_snapshot (counters b)], once = True\<rparr> =
                (Returns (Some (counter_snapshot (counters b))) None, \<lparr>payloadc = [], once = True\<rparr>)"
    using assms by (simp add: Wait_full_open)
  show ?thesis
    by (simp add: RequestCounterResults_def req wait counter_results_snapshot)
qed

text \<open>
  Claim C8. A new counter behavior that receives three events for which the key
  derivation gives a, b, then a, c, d, then a, d answers a snapshot request (whose reply
  arrives while the caller's context is open) with exactly the mapping of a to 3, b to 1,
  c to 1 and d to 2; after a reset event it answers a snapshot request with the empty
  mapping.
\<close>

theorem counter_scenario:
  assumes "event_Topic e1 \<notin> {TopicReset, TopicCounters}" and "cf cid e1 = [''a'', ''b'']"
    and "event_Topic e2 \<notin> {TopicReset, TopicCounters}" and "cf cid e2 = [''a'', ''c'', ''d'']"
    and "event_Topic e3 \<notin> {TopicReset, TopicCounters}" and "cf cid e3 = [''a'', ''d'']"
    and "event_Topic reset = TopicReset"
    and "ctx_Err ctx = None"
  shows "\<exists>st3 m st4 st5 m' st6.
           counter_deliver cf cid [e1, e2, e3] (NewCounterBehavior, ws) = Some st3 \<and>
           RequestCounterResults pick ctx cf cid st3 = Some (Inr m, st4) \<and>
           map_of m = [''a'' \<mapsto> 3, ''b'' \<mapsto> 1, ''c'' \<mapsto> 1, ''d'' \<mapsto> 2] \<and>
           length m = 4 \<and>
           counter_deliver cf cid [reset] st4 = Some st5 \<and>
           RequestCounterResults pick' ctx cf cid st5 = Some (Inr m', st6) \<and>
           m' = []"
proof -
  let ?cs = "[(''a'', 3), (''b'', 1), (''c'', 1), (''d'', 2)] :: (string \<times> 64 word) list"
  have run: "counter_deliver cf cid [e1, e2, e3] (NewCounterBehavior, ws) = Some (\<lparr>counters = ?cs\<rparr>, ws)"
    using assms(1-6)
    by (simp add: counter_count_event NewCounterBehavior_def counter_increment_def)
  have snap: "RequestCounterResults pick ctx cf cid (\<lparr>counters = ?cs\<rparr>, ws) =
                Some (Inr ?cs, \<lparr>counters = ?cs\<rparr>, ws @ [\<lparr>payloadc = [], once = True\<rparr>])"
    using assms(8) by (simp add: RequestCounterResults_answer)
  have m: "map_of ?cs = [''a'' \<mapsto> 3, ''b'' \<mapsto> 1, ''c'' \<mapsto> 1, ''d'' \<mapsto> 2]"
    by (auto simp: fun_eq_iff)
  have rst: "counter_deliver cf cid [reset] (\<lparr>counters = ?cs\<rparr>, ws @ [\<lparr>payloadc = [], once = True\<rparr>]) =
               Some (\<lparr>counters = []\<rparr>, ws @ [\<lparr>payloadc = [], once = True\<rparr>])"
    using assms(7) by (simp add: counter_reset_event)
  have snap': "RequestCounterResults pick' ctx cf cid
                 (\<lparr>counters = []\<rparr>, ws @ [\<lparr>payloadc = [], once = True\<rparr>]) =
               Some (Inr [], \<lparr>counters = []\<rparr>,
                     (ws @ [\<lparr>payloadc = [], once = True\<rparr>]) @ [\<lparr>payloadc = [], once = True\<rparr>])"
    using assms(8) by (simp add: RequestCounterResults_answer)
  show ?thesis
    unfolding run using snap m rst snap' by simp
qed

theorem counter_scenario_witness:
  "counter_deliver test_cf ''counter''
     [\<lparr>event_Topic = ''count'', event_Payload = \<lparr>values_f = [(DefaultPayload, VStrings [''a'', ''b''])]\<rparr>\<rparr>,
      \<lparr>event_Topic = ''count'', event_Payload = \<lparr>values_f = [(DefaultPayload, VStrings [''a'', ''c'', ''d''])]\<rparr>\<rparr>,
      \<lparr>event_Topic = ''count'', event_Payload = \<lparr>values_f = [(DefaultPayload, VStrings [''a'', ''d''])]\<rparr>\<rparr>]
     (NewCounterBehavior, []) =
   Some (\<lparr>counters = [(''a'', 3), (''b'', 1), (''c'', 1), (''d'', 2)]\<rparr>, []) \<and>
   RequestCounterResults 0 Background test_cf ''counter''
     (\<lparr>counters = [(''a'', 3), (''b'', 1), (''c'', 1), (''d'', 2)]\<rparr>, []) =
   Some (Inr [(''a'', 3), (''b'', 1), (''c'', 1), (''d'', 2)],
         \<lparr>counters = [(''a'', 3), (''b'', 1), (''c'', 1), (''d'', 2)]\<rparr>,
         [\<lparr>payloadc = [], once = True\<rparr>]) \<and>
   counter_deliver test_cf ''counter''
     [\<lparr>event_Topic = TopicReset, event_Payload = \<lparr>values_f = [(DefaultPayload, VNil)]\<rparr>\<rparr>]
     (\<lparr>counters = [(''a'', 3), (''b'', 1), (''c'', 1), (''d'', 2)]\<rparr>, [\<lparr>payloadc = [], once = True\<rparr>]) =
   Some (\<lparr>counters = []\<rparr>, [\<lparr>payloadc = [], once = True\<rparr>]) \<and>
   RequestCounterResults 0 Background test_cf ''counter''
     (\<lparr>counters = []\<rparr>, [\<lparr>payloadc = [], once = True\<rparr>]) =
   Some (Inr [], \<lparr>counters = []\<rparr>, [\<lparr>payloadc = [], once = True\<rparr>, \<lparr>payloadc = [], once = True\<rparr>])"
  using counter_scenario [of
      "\<lparr>event_Topic = ''count'', event_Payload = \<lparr>values_f = [(DefaultPayload, VStrings [''a'', ''b''])]\<rparr>\<rparr>"
      test_cf "''counter''"
      "\<lparr>event_Topic = ''count'', event_Payload = \<lparr>values_f = [(DefaultPayload, VStrings [''a'', ''c'', ''d''])]\<rparr>\<rparr>"
      "\<lparr>event_Topic = ''count'', event_Payload = \<lparr>values_f = [(DefaultPayload, VStrings [''a'', ''d''])]\<rparr>\<rparr>"
      "\<lparr>event_Topic = TopicReset, event_Payload = \<lparr>values_f = [(DefaultPayload, VNil)]\<rparr>\<rparr>"
      Background "[]" 0 0]
  by (simp add: test_cf_def payload_Get_def TopicReset_def TopicCounters_def Background_def
      counter_count_event counter_reset_event RequestCounterResults_answer
      NewCounterBehavior_def counter_increment_def)

end
